theory Spec2Isabelle
  imports Complex_Main
begin

section \<open>JavaScript values\<close>

text \<open>
  The controller of \<^verbatim>\<open>covid/video.js\<close> keeps two closure variables
  (\<^verbatim>\<open>seek_active\<close>, \<^verbatim>\<open>seek_pending\<close>) that hold \<^verbatim>\<open>undefined\<close>,
  \<^verbatim>\<open>null\<close> or a number, and reads \<^verbatim>\<open>video.duration\<close>, which is a
  non-negative number, \<^verbatim>\<open>Infinity\<close> (a live stream) or \<^verbatim>\<open>NaN\<close> (no metadata yet).
  Finite numbers are modelled as exact reals: rounding of IEEE doubles and the sign of
  zero are outside the model. The string that a range input reports as its value is
  modelled by the number it denotes (the controller only uses it through numeric
  coercion and through comparison with canonical number strings).
\<close>

datatype jsval = Undefined | Null | Num real | PosInf | NegInf | NaN

text \<open>ToNumber, as applied by the arithmetic and relational operators.\<close>

fun to_number :: "jsval \<Rightarrow> jsval" where
  "to_number Undefined = NaN"
| "to_number Null = Num 0"
| "to_number v = v"

text \<open>The global \<^verbatim>\<open>isFinite\<close>.\<close>

definition isFinite :: "jsval \<Rightarrow> bool" where
  "isFinite v = (case to_number v of Num r \<Rightarrow> True | _ \<Rightarrow> False)"

text \<open>
  \<^verbatim>\<open>x + c\<close>, \<^verbatim>\<open>x - c\<close>, \<^verbatim>\<open>x * c\<close> and \<^verbatim>\<open>x / c\<close> for a finite numeric
  literal \<open>c\<close>, which is the only form the controller uses.
\<close>

definition js_add :: "jsval \<Rightarrow> real \<Rightarrow> jsval" where
  "js_add x c = (case to_number x of Num r \<Rightarrow> Num (r + c) | v \<Rightarrow> v)"

definition js_sub :: "jsval \<Rightarrow> real \<Rightarrow> jsval" where
  "js_sub x c = (case to_number x of Num r \<Rightarrow> Num (r - c) | v \<Rightarrow> v)"

definition js_mul :: "jsval \<Rightarrow> real \<Rightarrow> jsval" where
  "js_mul x c =
     (case to_number x of
        Num r \<Rightarrow> Num (r * c)
      | PosInf \<Rightarrow> (if 0 < c then PosInf else if c < 0 then NegInf else NaN)
      | NegInf \<Rightarrow> (if 0 < c then NegInf else if c < 0 then PosInf else NaN)
      | _ \<Rightarrow> NaN)"

definition js_div :: "jsval \<Rightarrow> real \<Rightarrow> jsval" where
  "js_div x c =
     (case to_number x of
        Num r \<Rightarrow> (if c \<noteq> 0 then Num (r / c)
                  else if 0 < r then PosInf else if r < 0 then NegInf else NaN)
      | PosInf \<Rightarrow> (if 0 \<le> c then PosInf else NegInf)
      | NegInf \<Rightarrow> (if 0 \<le> c then NegInf else PosInf)
      | _ \<Rightarrow> NaN)"

definition Math_floor :: "jsval \<Rightarrow> jsval" where
  "Math_floor x = (case to_number x of Num r \<Rightarrow> Num (of_int \<lfloor>r\<rfloor>) | v \<Rightarrow> v)"

definition Math_ceil :: "jsval \<Rightarrow> jsval" where
  "Math_ceil x = (case to_number x of Num r \<Rightarrow> Num (of_int \<lceil>r\<rceil>) | v \<Rightarrow> v)"

text \<open>The relational operators on numbers: every comparison with \<^verbatim>\<open>NaN\<close> is false.\<close>

fun num_lt :: "jsval \<Rightarrow> jsval \<Rightarrow> bool" where
  "num_lt (Num x) (Num y) = (x < y)"
| "num_lt (Num x) PosInf = True"
| "num_lt NegInf (Num y) = True"
| "num_lt NegInf PosInf = True"
| "num_lt _ _ = False"

definition js_lt :: "jsval \<Rightarrow> jsval \<Rightarrow> bool" where
  "js_lt a b = num_lt (to_number a) (to_number b)"

definition js_gt :: "jsval \<Rightarrow> jsval \<Rightarrow> bool" where
  "js_gt a b = num_lt (to_number b) (to_number a)"

text \<open>
  Loose equality \<^verbatim>\<open>==\<close>: \<^verbatim>\<open>undefined\<close> and \<^verbatim>\<open>null\<close> equal each other and
  nothing else, \<^verbatim>\<open>NaN\<close> equals nothing. \<open>js_neq\<close> is \<^verbatim>\<open>!=\<close>.
\<close>

fun js_eq :: "jsval \<Rightarrow> jsval \<Rightarrow> bool" where
  "js_eq Undefined b = (b = Undefined \<or> b = Null)"
| "js_eq Null b = (b = Undefined \<or> b = Null)"
| "js_eq (Num x) b = (b = Num x)"
| "js_eq PosInf b = (b = PosInf)"
| "js_eq NegInf b = (b = NegInf)"
| "js_eq NaN b = False"

definition js_neq :: "jsval \<Rightarrow> jsval \<Rightarrow> bool" where
  "js_neq a b = (\<not> js_eq a b)"

section \<open>The page: the video element and its optional controls\<close>

text \<open>
  The media element as the controller sees it. \<open>currentTime\<close> always reads as a finite
  number; \<open>ended\<close> is maintained by the media engine between handlers and does not change
  while one runs.
\<close>

record video_element =
  currentTime :: real
  duration :: jsval
  paused :: bool
  ended :: bool
  loop :: bool

text \<open>
  What a handler does to the outside, in the order it does it: the trace records the
  calls on the media element, the focus call and the removal of the \<^verbatim>\<open>seeking\<close>
  class at the end of a debounced seek.
\<close>

datatype effect = KeyFocus | VideoPause | VideoPlay | SetCurrentTime real | ClearSeeking

text \<open>
  One controller per video: the closure of one iteration of the load handler's loop.
  An optional element is \<open>None\<close> when \<^verbatim>\<open>getElementById\<close> found nothing. A present
  button is \<open>Some c\<close>, where \<open>c\<close> tells whether its class list holds the class the
  controller toggles on it (\<^verbatim>\<open>seeking\<close> for rewind, prev, next and forward,
  \<^verbatim>\<open>looping\<close> for loop); the key target is \<open>Some f\<close>, where \<open>f\<close> tells whether it has
  the input focus; the slider is \<open>Some v\<close>, where \<open>v\<close> is the value last given to it.
  Of the play button only its presence is kept: the \<^verbatim>\<open>playing\<close> and \<^verbatim>\<open>paused\<close>
  classes, which the listeners of the media element's play and pause events put on it,
  play no part in what follows. \<open>timers\<close> counts the callbacks registered with
  \<^verbatim>\<open>setTimeout\<close> that have not run.
\<close>

record controller =
  video :: video_element
  key_target :: "bool option"
  play_button :: bool
  loop_button :: "bool option"
  rewind_button :: "bool option"
  prev_button :: "bool option"
  next_button :: "bool option"
  forward_button :: "bool option"
  slider_range :: "jsval option"
  seek_active :: jsval
  seek_pending :: jsval
  timers :: nat
  trace :: "effect list"

text \<open>
  A handler either returns or is left by the \<^verbatim>\<open>TypeError\<close> that the media element
  raises when \<^verbatim>\<open>currentTime\<close> is given a value that is not a finite number. The
  assignments made before the exception stay.
\<close>

datatype completion = Normal controller | TypeError controller

fun state_of :: "completion \<Rightarrow> controller" where
  "state_of (Normal s) = s"
| "state_of (TypeError s) = s"

subsection \<open>Calls on the elements\<close>

text \<open>\<^verbatim>\<open>if (b) b.classList.add(c)\<close> and \<^verbatim>\<open>if (b) b.classList.remove(c)\<close>.\<close>

definition classList_add :: "bool option \<Rightarrow> bool option" where
  "classList_add b = (case b of None \<Rightarrow> None | Some c \<Rightarrow> Some True)"

definition classList_remove :: "bool option \<Rightarrow> bool option" where
  "classList_remove b = (case b of None \<Rightarrow> None | Some c \<Rightarrow> Some False)"

text \<open>\<^verbatim>\<open>if (key_target) key_target.focus()\<close>.\<close>

definition focus_key_target :: "controller \<Rightarrow> controller" where
  "focus_key_target s =
     (case key_target s of
        None \<Rightarrow> s
      | Some f \<Rightarrow> s\<lparr>key_target := Some True, trace := trace s @ [KeyFocus]\<rparr>)"

definition video_pause :: "controller \<Rightarrow> controller" where
  "video_pause s = s\<lparr>video := (video s)\<lparr>paused := True\<rparr>, trace := trace s @ [VideoPause]\<rparr>"

definition video_play :: "controller \<Rightarrow> controller" where
  "video_play s = s\<lparr>video := (video s)\<lparr>paused := False\<rparr>, trace := trace s @ [VideoPlay]\<rparr>"

text \<open>\<^verbatim>\<open>if (slider_range) slider_range.value = time\<close>.\<close>

definition set_slider :: "jsval \<Rightarrow> controller \<Rightarrow> controller" where
  "set_slider time s =
     (case slider_range s of None \<Rightarrow> s | Some v \<Rightarrow> s\<lparr>slider_range := Some time\<rparr>)"

section \<open>The controller's functions\<close>

definition current_time :: "controller \<Rightarrow> jsval" where
  "current_time s =
     (if js_neq (seek_active s) Null then seek_pending s
      else Num (currentTime (video s)))"

text \<open>
  \<^verbatim>\<open>seek_nicely(time)\<close>. The chained assignment stores \<open>time\<close> in \<open>seek_pending\<close> and
  \<open>seek_active\<close> before it reaches \<^verbatim>\<open>video.currentTime\<close>; when that last assignment
  raises, \<^verbatim>\<open>setTimeout\<close> is not reached. The function's return value is used by no
  caller and is left out.
\<close>

definition seek_nicely :: "jsval \<Rightarrow> controller \<Rightarrow> completion" where
  "seek_nicely time s =
     (let s1 = set_slider time s in
      if js_neq (seek_active s1) Null then Normal (s1\<lparr>seek_pending := time\<rparr>)
      else
        let s2 = video_pause s1;
            s3 = s2\<lparr>seek_pending := time, seek_active := time\<rparr>
        in case to_number time of
             Num r \<Rightarrow>
               Normal (s3\<lparr>video := (video s3)\<lparr>currentTime := r\<rparr>,
                          timers := Suc (timers s3),
                          trace := trace s3 @ [SetCurrentTime r]\<rparr>)
           | _ \<Rightarrow> TypeError s3)"

text \<open>The removal of \<^verbatim>\<open>seeking\<close> from the four seek buttons.\<close>

definition clear_seeking :: "controller \<Rightarrow> controller" where
  "clear_seeking s =
     s\<lparr>rewind_button := classList_remove (rewind_button s),
       prev_button := classList_remove (prev_button s),
       next_button := classList_remove (next_button s),
       forward_button := classList_remove (forward_button s),
       trace := trace s @ [ClearSeeking]\<rparr>"

text \<open>The function given to \<^verbatim>\<open>setTimeout\<close> in \<^verbatim>\<open>seek_nicely\<close>.\<close>

definition seek_timeout :: "controller \<Rightarrow> completion" where
  "seek_timeout s =
     (let changed = js_neq (seek_pending s) (seek_active s);
          s1 = s\<lparr>seek_active := Null\<rparr>
      in if changed then seek_nicely (seek_pending s1) s1
         else Normal (clear_seeking s1))"

definition rewind :: "controller \<Rightarrow> completion" where
  "rewind s =
     (let s1 = focus_key_target s;
          s2 = s1\<lparr>rewind_button := classList_add (rewind_button s1)\<rparr>
      in seek_nicely (Num 0) s2)"

definition play_pause :: "controller \<Rightarrow> completion" where
  "play_pause s =
     (let s1 = focus_key_target s;
          r = (if js_gt (current_time s1) (js_sub (duration (video s1)) 0.2)
               then rewind s1 else Normal s1)
      in case r of
           TypeError s2 \<Rightarrow> TypeError s2
         | Normal s2 \<Rightarrow>
             Normal (if paused (video s2) \<or> ended (video s2)
                     then video_play s2 else video_pause s2))"

definition loop_toggle :: "controller \<Rightarrow> completion" where
  "loop_toggle s =
     (let s1 = focus_key_target s;
          on = (\<not> loop (video s1));
          s2 = s1\<lparr>video := (video s1)\<lparr>loop := on\<rparr>\<rparr>;
          s3 = (if on then video_play s2 else video_pause s2)
      in Normal (s3\<lparr>loop_button :=
                      (if on then classList_add (loop_button s3)
                       else classList_remove (loop_button s3))\<rparr>))"

definition prev_frame :: "controller \<Rightarrow> completion" where
  "prev_frame s =
     (let s1 = focus_key_target s;
          s2 = s1\<lparr>prev_button := classList_add (prev_button s1)\<rparr>;
          prev = js_div (js_sub (Math_ceil (js_mul (current_time s2) 3)) 1.5) 3
      in seek_nicely (if js_gt prev (Num 0.2) then prev else Num 0) s2)"

definition next_frame :: "controller \<Rightarrow> completion" where
  "next_frame s =
     (let s1 = focus_key_target s;
          s2 = s1\<lparr>next_button := classList_add (next_button s1)\<rparr>;
          next = js_div (js_add (Math_floor (js_mul (current_time s2) 3)) 1.5) 3
      in seek_nicely
           (if js_lt next (js_sub (duration (video s2)) 0.2) then next
            else duration (video s2)) s2)"

definition forward :: "controller \<Rightarrow> completion" where
  "forward s =
     (let s1 = focus_key_target s in
      if isFinite (duration (video s1))
      then seek_nicely (duration (video s1))
             (s1\<lparr>forward_button := classList_add (forward_button s1)\<rparr>)
      else Normal s1)"

text \<open>
  The slider's \<^verbatim>\<open>input\<close> listener, run after the user has moved the slider to \<open>v\<close>.
\<close>

definition slider_input :: "real \<Rightarrow> controller \<Rightarrow> completion" where
  "slider_input v s = seek_nicely (Num v) (s\<lparr>slider_range := Some (Num v)\<rparr>)"

text \<open>
  \<^verbatim>\<open>slider_from_video\<close>; of the slider's attributes only the value is modelled.
\<close>

definition slider_from_video :: "controller \<Rightarrow> controller" where
  "slider_from_video s =
     (if \<not> isFinite (duration (video s)) then s
      else s\<lparr>slider_range := Some (current_time s)\<rparr>)"

section \<open>Events\<close>

text \<open>
  The listeners that the load handler installs. A click listener exists only on a button
  that was found, the key listener only on a key target that was found. \<open>Timeout\<close> is
  the firing of an outstanding timer. \<open>MediaChange\<close> is the media engine changing the
  element's position, duration and playing state, followed by the
  \<^verbatim>\<open>durationchange\<close>/\<^verbatim>\<open>timeupdate\<close> listener; \<open>Blur\<close> is the key target losing the
  focus. An exception that leaves a listener is reported and the page goes on.
\<close>

datatype event =
    VideoClick | PlayClick | LoopClick | RewindClick | PrevClick | NextClick
  | ForwardClick | SliderInput real | KeyDown string | Timeout
  | MediaChange real jsval bool bool | Blur

definition keydown :: "string \<Rightarrow> controller \<Rightarrow> completion" where
  "keydown code s =
     (if code = ''KeyP'' then play_pause s
      else if code = ''KeyL'' then loop_toggle s
      else if code = ''KeyR'' then rewind s
      else if code = ''BracketLeft'' then prev_frame s
      else if code = ''BracketRight'' then next_frame s
      else if code = ''KeyF'' then forward s
      else Normal s)"

fun handle :: "event \<Rightarrow> controller \<Rightarrow> completion" where
  "handle VideoClick s = play_pause s"
| "handle PlayClick s = (if play_button s then play_pause s else Normal s)"
| "handle LoopClick s = (if loop_button s \<noteq> None then loop_toggle s else Normal s)"
| "handle RewindClick s = (if rewind_button s \<noteq> None then rewind s else Normal s)"
| "handle PrevClick s = (if prev_button s \<noteq> None then prev_frame s else Normal s)"
| "handle NextClick s = (if next_button s \<noteq> None then next_frame s else Normal s)"
| "handle ForwardClick s = (if forward_button s \<noteq> None then forward s else Normal s)"
| "handle (SliderInput v) s = (if slider_range s \<noteq> None then slider_input v s else Normal s)"
| "handle (KeyDown code) s = (if key_target s \<noteq> None then keydown code s else Normal s)"
| "handle Timeout s =
     (if timers s = 0 then Normal s else seek_timeout (s\<lparr>timers := timers s - 1\<rparr>))"
| "handle (MediaChange t d p e) s =
     (let s1 = s\<lparr>video := (video s)\<lparr>currentTime := t, duration := d, paused := p, ended := e\<rparr>\<rparr>
      in Normal (if slider_range s1 \<noteq> None then slider_from_video s1 else s1))"
| "handle Blur s =
     Normal (case key_target s of None \<Rightarrow> s | Some f \<Rightarrow> s\<lparr>key_target := Some False\<rparr>)"

definition dispatch :: "event \<Rightarrow> controller \<Rightarrow> controller" where
  "dispatch e s = state_of (handle e s)"


section \<open>The frame-step formulas of the specification and example pages\<close>



text \<open>
  A page with every control, showing a ten-second video at 1.0 s with no seek in flight;
  the same page while a seek to 4 s is in flight and a later request for 7 s is pending;
  the same page at 2.1 s, at 9.85 s and at 0 s; and the same page showing a live stream,
  whose duration is \<^verbatim>\<open>Infinity\<close>.
\<close>

definition example_video :: video_element where
  "example_video = \<lparr>currentTime = 1, duration = Num 10, paused = False, ended = False,
     loop = False\<rparr>"

definition example_page :: controller where
  "example_page = \<lparr>video = example_video, key_target = Some False, play_button = True,
     loop_button = Some False, rewind_button = Some False, prev_button = Some False,
     next_button = Some False, forward_button = Some False, slider_range = Some (Num 0),
     seek_active = Undefined, seek_pending = Undefined, timers = 0, trace = []\<rparr>"

definition example_seeking :: controller where
  "example_seeking =
     state_of (seek_nicely (Num 7) (state_of (seek_nicely (Num 4) example_page)))"


definition example_live :: controller where
  "example_live = example_page\<lparr>video := example_video\<lparr>duration := PosInf\<rparr>\<rparr>"

definition example_near_end :: controller where
  "example_near_end = example_page\<lparr>video := example_video\<lparr>currentTime := 197 / 20\<rparr>\<rparr>"


section \<open>Debounced seeks: runs, settling and what is observed\<close>

text \<open>
  The times assigned to \<^verbatim>\<open>video.currentTime\<close> along a trace, and the last of them.
\<close>

fun applied :: "effect list \<Rightarrow> real list" where
  "applied [] = []"
| "applied (SetCurrentTime t # es) = t # applied es"
| "applied (e # es) = applied es"

definition last_applied :: "effect list \<Rightarrow> real option" where
  "last_applied tr = (if applied tr = [] then None else Some (last (applied tr)))"

text \<open>
  The seek variables, the timer and the trace agree: with no seek in flight there is no
  timer; with a seek to \<open>a\<close> in flight there is exactly one timer, \<open>a\<close> is the position
  last assigned to the media element, and the pending target is a finite number.
\<close>

definition seek_inv :: "controller \<Rightarrow> bool" where
  "seek_inv s =
     (case seek_active s of
        Undefined \<Rightarrow> timers s = 0
      | Null \<Rightarrow> timers s = 0
      | Num a \<Rightarrow> timers s = 1 \<and> last_applied (trace s) = Some a \<and>
                 (case seek_pending s of Num p \<Rightarrow> True | _ \<Rightarrow> False)
      | _ \<Rightarrow> False)"



text \<open>
  Letting the outstanding timers fire after the last request: \<open>settle n\<close> fires at most
  \<open>n\<close> times and stops as soon as no timer is left.
\<close>

fun settle :: "nat \<Rightarrow> controller \<Rightarrow> controller" where
  "settle 0 s = s"
| "settle (Suc n) s = (if timers s = 0 then s else settle n (dispatch Timeout s))"

text \<open>
  A seek is in flight when \<^verbatim>\<open>seek_active != null\<close>; the busy indicator is on when one
  of the four seek buttons carries the \<^verbatim>\<open>seeking\<close> class.
\<close>

definition seeking :: "controller \<Rightarrow> bool" where
  "seeking s = js_neq (seek_active s) Null"

definition busy :: "controller \<Rightarrow> bool" where
  "busy s = (rewind_button s = Some True \<or> prev_button s = Some True \<or>
     next_button s = Some True \<or> forward_button s = Some True)"

text \<open>
  The body of the load handler for one video, given the elements of the page: the closure
  variables start undefined, no timer is registered, \<^verbatim>\<open>slider_from_video\<close> runs once
  when there is a slider, and the key target, when there is one, gets the focus.
\<close>

definition load :: "controller \<Rightarrow> controller" where
  "load page =
     (let s = page\<lparr>seek_active := Undefined, seek_pending := Undefined, timers := 0,
                 trace := []\<rparr>;
          s1 = (if slider_range s \<noteq> None then slider_from_video s else s)
      in focus_key_target s1)"

text \<open>
  What the page and the media engine are taken to provide: \<^verbatim>\<open>video.duration\<close> is a
  number (possibly \<^verbatim>\<open>NaN\<close> or infinite), and the page's markup puts the
  \<^verbatim>\<open>seeking\<close> class on no button.
\<close>

definition is_number :: "jsval \<Rightarrow> bool" where
  "is_number v = (v \<noteq> Undefined \<and> v \<noteq> Null)"



text \<open>
  The invariant of the reachable states: a marker is on only while a seek is in flight,
  and while one is in flight the pending target is a number.
\<close>

definition marker_inv :: "controller \<Rightarrow> bool" where
  "marker_inv s =
     (is_number (duration (video s)) \<and> (busy s \<longrightarrow> seeking s) \<and>
      (seeking s \<longrightarrow> is_number (seek_pending s)))"

section \<open>Basic facts\<close>



lemma seek_pending_seek_nicely: "seek_pending (state_of (seek_nicely time s)) = time"
  by (simp add: seek_nicely_def Let_def set_slider_def video_pause_def
      split: option.splits jsval.splits)

lemma seek_nicely_fields [simp]:
  "duration (video (state_of (seek_nicely time s))) = duration (video s)"
  "rewind_button (state_of (seek_nicely time s)) = rewind_button s"
  "prev_button (state_of (seek_nicely time s)) = prev_button s"
  "next_button (state_of (seek_nicely time s)) = next_button s"
  "forward_button (state_of (seek_nicely time s)) = forward_button s"
  "key_target (state_of (seek_nicely time s)) = key_target s"
  by (simp_all add: seek_nicely_def Let_def set_slider_def video_pause_def
      split: option.splits jsval.splits)

lemma seek_nicely_Num_Normal:
  "seek_nicely (Num t) s = Normal (state_of (seek_nicely (Num t) s))"
  by (simp add: seek_nicely_def Let_def)


lemma focus_key_target_fields [simp]:
  "video (focus_key_target s) = video s"
  "seek_active (focus_key_target s) = seek_active s"
  "seek_pending (focus_key_target s) = seek_pending s"
  "timers (focus_key_target s) = timers s"
  "rewind_button (focus_key_target s) = rewind_button s"
  "prev_button (focus_key_target s) = prev_button s"
  "next_button (focus_key_target s) = next_button s"
  "forward_button (focus_key_target s) = forward_button s"
  "slider_range (focus_key_target s) = slider_range s"
  by (simp_all add: focus_key_target_def split: option.splits)

lemma current_time_focus [simp]: "current_time (focus_key_target s) = current_time s"
  by (simp add: current_time_def)

lemma seek_nicely_idle:
  "\<not> js_neq (seek_active s) Null \<Longrightarrow>
   seek_nicely (Num t) s =
     Normal (s\<lparr>slider_range := (case slider_range s of None \<Rightarrow> None | Some v \<Rightarrow> Some (Num t)),
        video := (video s)\<lparr>paused := True, currentTime := t\<rparr>,
        seek_pending := Num t, seek_active := Num t, timers := Suc (timers s),
        trace := trace s @ [VideoPause, SetCurrentTime t]\<rparr>)"
  by (simp add: seek_nicely_def Let_def set_slider_def video_pause_def split: option.splits)


lemma rewind_idle:
  assumes "\<not> js_neq (seek_active s) Null"
  shows "rewind s =
     Normal (s\<lparr>key_target := (case key_target s of None \<Rightarrow> None | Some f \<Rightarrow> Some True),
        rewind_button := classList_add (rewind_button s),
        slider_range := (case slider_range s of None \<Rightarrow> None | Some v \<Rightarrow> Some (Num 0)),
        video := (video s)\<lparr>paused := True, currentTime := 0\<rparr>,
        seek_pending := Num 0, seek_active := Num 0, timers := Suc (timers s),
        trace := trace (focus_key_target s) @ [VideoPause, SetCurrentTime 0]\<rparr>)"
  using assms
  by (simp add: rewind_def Let_def seek_nicely_idle)
     (simp add: focus_key_target_def split: option.splits)

lemma example_seeking_eq:
  "example_seeking = example_page\<lparr>video := example_video\<lparr>paused := True, currentTime := 4\<rparr>,
     slider_range := Some (Num 7), seek_active := Num 4, seek_pending := Num 7,
     timers := 1, trace := [VideoPause, SetCurrentTime 4]\<rparr>"
  by (simp add: example_seeking_def example_page_def seek_nicely_def Let_def set_slider_def
      video_pause_def js_neq_def)

section \<open>Facts about debounced seeks\<close>

lemma settle_no_timer [simp]: "timers s = 0 \<Longrightarrow> settle n s = s"
  by (cases n) simp_all

lemma applied_append: "applied (xs @ ys) = applied xs @ applied ys"
  by (induction xs rule: applied.induct) simp_all

lemma last_applied_snoc [simp]:
  "last_applied (tr @ [SetCurrentTime t]) = Some t"
  "last_applied (tr @ [VideoPause]) = last_applied tr"
  "last_applied (tr @ [ClearSeeking]) = last_applied tr"
  by (simp_all add: last_applied_def applied_append)

lemma last_applied_snoc2 [simp]:
  "last_applied (tr @ [VideoPause, SetCurrentTime t]) = Some t"
  "last_applied (tr @ [VideoPause, SetCurrentTime t, ClearSeeking]) = Some t"
  by (simp_all add: last_applied_def applied_append)








lemma seek_inv_load: "seek_inv (load page)"
  by (simp add: load_def Let_def seek_inv_def slider_from_video_def focus_key_target_def
      split: option.splits)

text \<open>
  The requests above are for finite times. The one request the controller can make for a
  time that is not finite comes from \<open>next_frame\<close> while the duration is still
  \<^verbatim>\<open>NaN\<close>: with no seek in flight the assignment to the position raises, no timer is
  registered, and \<open>seek_active\<close> is left at \<^verbatim>\<open>NaN\<close>, which counts as a seek in flight.
\<close>

lemma next_frame_unknown_duration:
  assumes "\<not> js_neq (seek_active s) Null" and "duration (video s) = NaN"
  shows "\<exists>x. next_frame s = TypeError x \<and> seek_active x = NaN \<and> timers x = timers s \<and>
    applied (trace x) = applied (trace s) \<and> js_neq (seek_active x) Null"
  using assms
  by (simp add: next_frame_def Let_def js_lt_def js_sub_def seek_nicely_def set_slider_def
      video_pause_def js_neq_def applied_append focus_key_target_def split: option.splits)

section \<open>Facts about the markers\<close>

lemma is_number_arith [simp]:
  "is_number (js_div x c)" "is_number (Num r)"
  by (simp_all add: is_number_def js_div_def split: jsval.splits)


lemma busy_seek_nicely [simp]: "busy (state_of (seek_nicely time s)) = busy s"
  by (simp add: busy_def)







lemma marker_inv_focus [simp]: "marker_inv (focus_key_target s) = marker_inv s"
  by (simp add: marker_inv_def busy_def seeking_def)

lemma marker_inv_media [simp]:
  "marker_inv (video_play s) = marker_inv s" "marker_inv (video_pause s) = marker_inv s"
  by (simp_all add: marker_inv_def busy_def seeking_def video_play_def video_pause_def)














lemma busy_fields [simp]:
  "busy (focus_key_target s) = busy s" "busy (video_play s) = busy s"
  "busy (video_pause s) = busy s"
  by (simp_all add: busy_def video_play_def video_pause_def)

lemma seeking_fields [simp]:
  "seeking (focus_key_target s) = seeking s" "seeking (video_play s) = seeking s"
  "seeking (video_pause s) = seeking s"
  by (simp_all add: seeking_def video_play_def video_pause_def)


lemma seeking_marked [simp]:
  "seeking (x\<lparr>rewind_button := b\<rparr>) = seeking x" "seeking (x\<lparr>prev_button := b\<rparr>) = seeking x"
  "seeking (x\<lparr>next_button := b\<rparr>) = seeking x" "seeking (x\<lparr>forward_button := b\<rparr>) = seeking x"
  "seeking (x\<lparr>slider_range := v\<rparr>) = seeking x"
  by (simp_all add: seeking_def)
















section \<open>The pending seek target is the reported time\<close>

text \<open>
  C2. \<open>current_time\<close> returns the pending seek target whenever a debounced seek is in
  flight (\<open>seek_active\<close> is neither \<^verbatim>\<open>null\<close> nor \<^verbatim>\<open>undefined\<close>) and the media
  element's reported position otherwise; after a seek request for a time \<open>t\<close> it
  returns \<open>t\<close>, whatever position the media element reports.
\<close>

theorem current_time_pending_or_media:
  "(js_neq (seek_active s) Null \<longrightarrow> current_time s = seek_pending s) \<and>
   (\<not> js_neq (seek_active s) Null \<longrightarrow> current_time s = Num (currentTime (video s))) \<and>
   current_time (state_of (seek_nicely (Num t) s)) = Num t"
  by (cases "seek_active s")
     (simp_all add: current_time_def seek_nicely_def set_slider_def video_pause_def
        js_neq_def Let_def split: option.splits)

text \<open>
  On the page with a seek to 4 s in flight and 7 s pending, the reported time is 7 while
  the media element is at 4; on the idle page it is the media element's 1.
\<close>

theorem current_time_pending_or_media_witness:
  "js_neq (seek_active example_seeking) Null \<and> current_time example_seeking = Num 7 \<and>
   currentTime (video example_seeking) = 4 \<and>
   \<not> js_neq (seek_active example_page) Null \<and> current_time example_page = Num 1"
proof -
  have a: "js_neq (seek_active example_seeking) Null"
    by (simp add: example_seeking_eq js_neq_def)
  have b: "\<not> js_neq (seek_active example_page) Null"
    by (simp add: example_page_def js_neq_def)
  show ?thesis
    using a b current_time_pending_or_media [of example_seeking 0]
      current_time_pending_or_media [of example_page 0]
    by (simp add: example_seeking_eq) (simp add: example_page_def example_video_def)
qed

section \<open>Frame stepping\<close>







section \<open>Forward to the end, rewind and play/pause\<close>

text \<open>
  C8. When the duration is not finite, \<open>forward\<close> leaves the media element, both seek
  variables, the timers, the slider and every \<^verbatim>\<open>seeking\<close> marker as they were, and
  makes no call on the media element; when it is finite, \<open>forward\<close> marks the forward
  button and requests a debounced seek to the duration.
\<close>

theorem forward_only_when_finite:
  "(\<not> isFinite (duration (video s)) \<longrightarrow>
      forward s = Normal (focus_key_target s) \<and>
      video (state_of (forward s)) = video s \<and>
      seek_active (state_of (forward s)) = seek_active s \<and>
      seek_pending (state_of (forward s)) = seek_pending s \<and>
      timers (state_of (forward s)) = timers s \<and>
      slider_range (state_of (forward s)) = slider_range s \<and>
      rewind_button (state_of (forward s)) = rewind_button s \<and>
      prev_button (state_of (forward s)) = prev_button s \<and>
      next_button (state_of (forward s)) = next_button s \<and>
      forward_button (state_of (forward s)) = forward_button s \<and>
      trace (state_of (forward s)) = trace (focus_key_target s)) \<and>
   (isFinite (duration (video s)) \<longrightarrow>
      forward s =
        seek_nicely (duration (video s))
          ((focus_key_target s)\<lparr>forward_button := classList_add (forward_button s)\<rparr>) \<and>
      forward_button (state_of (forward s)) = classList_add (forward_button s) \<and>
      seek_pending (state_of (forward s)) = duration (video s))"
  by (simp add: forward_def Let_def seek_pending_seek_nicely)

text \<open>The live-stream example against the ten-second example.\<close>

theorem forward_only_when_finite_witness:
  "\<not> isFinite (duration (video example_live)) \<and>
   forward example_live = Normal (focus_key_target example_live) \<and>
   trace (state_of (forward example_live)) = [KeyFocus] \<and>
   forward_button (state_of (forward example_live)) = Some False \<and>
   isFinite (duration (video example_page)) \<and>
   forward_button (state_of (forward example_page)) = Some True \<and>
   seek_pending (state_of (forward example_page)) = Num 10"
proof -
  have a: "\<not> isFinite (duration (video example_live))"
    by (simp add: example_live_def isFinite_def)
  have b: "isFinite (duration (video example_page))"
    by (simp add: example_page_def example_video_def isFinite_def)
  have l: "forward example_live = Normal (focus_key_target example_live) \<and>
      trace (state_of (forward example_live)) = trace (focus_key_target example_live) \<and>
      forward_button (state_of (forward example_live)) = forward_button example_live"
    using a forward_only_when_finite [of example_live] by blast
  have p: "forward_button (state_of (forward example_page)) =
        classList_add (forward_button example_page) \<and>
      seek_pending (state_of (forward example_page)) = duration (video example_page)"
    using b forward_only_when_finite [of example_page] by blast
  have t: "trace (focus_key_target example_live) = [KeyFocus]"
    by (simp add: focus_key_target_def example_live_def example_page_def)
  show ?thesis
    using a b l p t
    by (simp add: example_live_def example_page_def example_video_def classList_add_def)
qed

text \<open>
  C10. \<open>forward\<close> gives the key target the focus, when there is one, before it looks at
  the duration: the focus call is the first thing it adds to the trace whatever the
  duration is, and when the duration is not finite the resulting state differs from the
  given one in nothing else.
\<close>

theorem forward_focuses_before_guard:
  "key_target (state_of (forward s)) = (case key_target s of None \<Rightarrow> None | Some f \<Rightarrow> Some True) \<and>
   take (length (trace (focus_key_target s))) (trace (state_of (forward s))) =
     trace (focus_key_target s) \<and>
   (\<not> isFinite (duration (video s)) \<longrightarrow>
      forward s =
        Normal (case key_target s of
                  None \<Rightarrow> s
                | Some f \<Rightarrow> s\<lparr>key_target := Some True, trace := trace s @ [KeyFocus]\<rparr>))"
proof -
  have k: "key_target (focus_key_target s) = (case key_target s of None \<Rightarrow> None | Some f \<Rightarrow> Some True)"
    by (simp add: focus_key_target_def split: option.splits)
  have t: "take (length (trace x)) (trace (state_of (seek_nicely time (x\<lparr>forward_button := b\<rparr>)))) = trace x"
    for x time b
    by (simp add: seek_nicely_def Let_def set_slider_def video_pause_def
        split: option.splits jsval.splits)
  show ?thesis
    by (simp add: forward_def Let_def k t) (simp add: focus_key_target_def)
qed

text \<open>On the live-stream example only the focus moves.\<close>

theorem forward_focuses_before_guard_witness:
  "\<not> isFinite (duration (video example_live)) \<and>
   forward example_live = Normal (example_live\<lparr>key_target := Some True, trace := [KeyFocus]\<rparr>) \<and>
   key_target (state_of (forward example_page)) = Some True"
proof -
  have a: "\<not> isFinite (duration (video example_live))"
    by (simp add: example_live_def isFinite_def)
  have l: "forward example_live =
      Normal (case key_target example_live of
                None \<Rightarrow> example_live
              | Some f \<Rightarrow> example_live\<lparr>key_target := Some True,
                  trace := trace example_live @ [KeyFocus]\<rparr>)"
    using a forward_focuses_before_guard [of example_live] by blast
  have p: "key_target (state_of (forward example_page)) =
      (case key_target example_page of None \<Rightarrow> None | Some f \<Rightarrow> Some True)"
    using forward_focuses_before_guard [of example_page] by blast
  have k: "key_target example_live = Some False" "trace example_live = []"
    "key_target example_page = Some False"
    by (simp_all add: example_live_def example_page_def)
  show ?thesis using a l p by (simp add: k)
qed




text \<open>
  C4. When the reported time is above the duration minus 0.2, \<open>play_pause\<close> first runs
  \<open>rewind\<close> and then plays if the media element is paused or ended and pauses it
  otherwise; when it is not, \<open>play_pause\<close> only toggles. With no seek in flight the
  rewind pauses the media element, so the calls are: pause, position 0, play.
\<close>

theorem play_pause_rewinds_near_end_then_toggles:
  "(js_gt (current_time s) (js_sub (duration (video s)) 0.2) \<longrightarrow>
      play_pause s =
        Normal (if paused (video (state_of (rewind (focus_key_target s)))) \<or>
                   ended (video (state_of (rewind (focus_key_target s))))
                then video_play (state_of (rewind (focus_key_target s)))
                else video_pause (state_of (rewind (focus_key_target s))))) \<and>
   (\<not> js_gt (current_time s) (js_sub (duration (video s)) 0.2) \<longrightarrow>
      play_pause s =
        Normal (if paused (video s) \<or> ended (video s)
                then video_play (focus_key_target s)
                else video_pause (focus_key_target s))) \<and>
   (js_gt (current_time s) (js_sub (duration (video s)) 0.2) \<and>
    \<not> js_neq (seek_active s) Null \<longrightarrow>
      trace (state_of (play_pause s)) =
        trace (focus_key_target (focus_key_target s)) @
          [VideoPause, SetCurrentTime 0, VideoPlay] \<and>
      currentTime (video (state_of (play_pause s))) = 0 \<and>
      \<not> paused (video (state_of (play_pause s))) \<and>
      seek_pending (state_of (play_pause s)) = Num 0)"
proof -
  have r: "rewind x = Normal (state_of (rewind x))" for x
    by (simp add: rewind_def Let_def seek_nicely_Num_Normal [symmetric])
  have n: "play_pause s =
      Normal (if paused (video (state_of (rewind (focus_key_target s)))) \<or>
                   ended (video (state_of (rewind (focus_key_target s))))
                then video_play (state_of (rewind (focus_key_target s)))
                else video_pause (state_of (rewind (focus_key_target s))))"
    if "js_gt (current_time s) (js_sub (duration (video s)) 0.2)"
  proof -
    obtain x where x: "rewind (focus_key_target s) = Normal x"
      using r [of "focus_key_target s"] by blast
    show ?thesis using that by (simp add: play_pause_def Let_def x)
  qed
  have f: "play_pause s =
        Normal (if paused (video s) \<or> ended (video s)
                then video_play (focus_key_target s)
                else video_pause (focus_key_target s))"
    if "\<not> js_gt (current_time s) (js_sub (duration (video s)) 0.2)"
    using that by (simp add: play_pause_def Let_def)
  have i: "trace (state_of (play_pause s)) =
        trace (focus_key_target (focus_key_target s)) @
          [VideoPause, SetCurrentTime 0, VideoPlay] \<and>
      currentTime (video (state_of (play_pause s))) = 0 \<and>
      \<not> paused (video (state_of (play_pause s))) \<and>
      seek_pending (state_of (play_pause s)) = Num 0"
    if "js_gt (current_time s) (js_sub (duration (video s)) 0.2)"
      and "\<not> js_neq (seek_active s) Null"
    using that by (simp add: n rewind_idle video_play_def)
  from n f i show ?thesis by blast
qed

text \<open>Ten seconds of video at 9.85 s; and at 1.0 s, where a playing video is only paused.\<close>

theorem play_pause_rewinds_near_end_then_toggles_witness:
  "js_gt (current_time example_near_end) (js_sub (duration (video example_near_end)) 0.2) \<and>
   \<not> js_neq (seek_active example_near_end) Null \<and>
   current_time example_near_end = Num (197 / 20) \<and>
   duration (video example_near_end) = Num 10 \<and>
   trace (state_of (play_pause example_near_end)) =
     [KeyFocus, KeyFocus, VideoPause, SetCurrentTime 0, VideoPlay] \<and>
   currentTime (video (state_of (play_pause example_near_end))) = 0 \<and>
   \<not> paused (video (state_of (play_pause example_near_end))) \<and>
   \<not> js_gt (current_time example_page) (js_sub (duration (video example_page)) 0.2) \<and>
   play_pause example_page = Normal (video_pause (focus_key_target example_page))"
proof -
  have c: "current_time example_near_end = Num (197 / 20)"
    "duration (video example_near_end) = Num 10"
    by (simp_all add: current_time_def example_near_end_def example_page_def example_video_def
        js_neq_def)
  have a: "js_gt (current_time example_near_end) (js_sub (duration (video example_near_end)) 0.2)"
    by (simp add: c js_gt_def js_sub_def)
  have b: "\<not> js_neq (seek_active example_near_end) Null"
    by (simp add: example_near_end_def example_page_def js_neq_def)
  have d: "\<not> js_gt (current_time example_page) (js_sub (duration (video example_page)) 0.2)"
    by (simp add: current_time_def example_page_def example_video_def js_neq_def js_gt_def
        js_sub_def)
  have t: "trace (focus_key_target (focus_key_target example_near_end)) = [KeyFocus, KeyFocus]"
    by (simp add: focus_key_target_def example_near_end_def example_page_def)
  have p: "\<not> (paused (video example_page) \<or> ended (video example_page))"
    by (simp add: example_page_def example_video_def)
  have n: "trace (state_of (play_pause example_near_end)) =
        trace (focus_key_target (focus_key_target example_near_end)) @
          [VideoPause, SetCurrentTime 0, VideoPlay] \<and>
      currentTime (video (state_of (play_pause example_near_end))) = 0 \<and>
      \<not> paused (video (state_of (play_pause example_near_end)))"
    using a b play_pause_rewinds_near_end_then_toggles [of example_near_end] by blast
  have q: "play_pause example_page = Normal (video_pause (focus_key_target example_page))"
    using d p play_pause_rewinds_near_end_then_toggles [of example_page] by simp
  show ?thesis using a b c d n q by (simp add: t)
qed

section \<open>The debounced seek\<close>



section \<open>The busy markers\<close>




end
